theory Spec2Isabelle
  imports Complex_Main
begin

section \<open>Data model\<close>

text \<open>
  Documents of the five collections, as the Mongoose schemas declare them. An ObjectId is
  a natural number, a Date is a number of milliseconds on the server's local time line
  (one fixed offset, no daylight-saving jumps), a JavaScript Number that the code computes
  with division is a real. Fields that no modelled function reads (titles, hints, feedback,
  the bcrypt password) are left out.
\<close>

type_synonym objectId = nat
type_synonym date = int

datatype difficulty = Easy | Medium | Hard

datatype status = NotAttempted | Attempted | Solved | Skipped

text \<open>The sub-documents with one field per difficulty tier.\<close>

record 'a tiers =
  easy :: 'a
  medium :: 'a
  hard :: 'a

definition getTier :: "difficulty \<Rightarrow> 'a tiers \<Rightarrow> 'a" where
  "getTier d t = (case d of Easy \<Rightarrow> easy t | Medium \<Rightarrow> medium t | Hard \<Rightarrow> hard t)"

definition setTier :: "difficulty \<Rightarrow> 'a \<Rightarrow> 'a tiers \<Rightarrow> 'a tiers" where
  "setTier d v t =
     (case d of Easy \<Rightarrow> t\<lparr>easy := v\<rparr> | Medium \<Rightarrow> t\<lparr>medium := v\<rparr> | Hard \<Rightarrow> t\<lparr>hard := v\<rparr>)"

record topicMastery =
  tmUserId :: objectId
  tmTopic :: string
  masteryLevel :: real
  problemsAttempted :: "nat tiers"
  problemsSolved :: "nat tiers"
  successRates :: "real tiers"
  successRatesOverall :: real
  averageAttempts :: "real tiers"
  lastUpdated :: date
  recommendedDifficulty :: difficulty

section \<open>Mastery model: the pre-save hook of TopicMastery\<close>

text \<open>\<^verbatim>\<open>Math.round\<close>: the nearest integer, a half rounded towards plus infinity.\<close>

definition Math_round :: "real \<Rightarrow> int" where
  "Math_round x = \<lfloor>x + 1 / 2\<rfloor>"

definition totalSolved :: "topicMastery \<Rightarrow> nat" where
  "totalSolved tm =
     easy (problemsSolved tm) + medium (problemsSolved tm) + hard (problemsSolved tm)"

definition totalAttempted :: "topicMastery \<Rightarrow> nat" where
  "totalAttempted tm =
     easy (problemsAttempted tm) + medium (problemsAttempted tm) + hard (problemsAttempted tm)"

text \<open>
  The body of \<^verbatim>\<open>if (totalAttempted > 0)\<close> in \<^verbatim>\<open>topicMasterySchema.pre("save")\<close>,
  statement by statement.
\<close>

definition masteryScore :: "topicMastery \<Rightarrow> real" where
  "masteryScore tm =
     (let overall = real (totalSolved tm) / real (totalAttempted tm) * 100;
          score0 = overall * (6 / 10);
          difficultyBonus =
            (real (medium (problemsSolved tm)) * (3 / 2) + real (hard (problemsSolved tm)) * (5 / 2))
              / real (max (totalSolved tm) 1);
          score1 = score0 + difficultyBonus * 25;
          consistencyScore = min (real (totalAttempted tm) / 10) 1 * 15
      in score1 + consistencyScore)"

definition recomputeMastery :: "topicMastery \<Rightarrow> topicMastery" where
  "recomputeMastery tm =
     (if totalAttempted tm > 0
      then tm\<lparr>successRatesOverall := real (totalSolved tm) / real (totalAttempted tm) * 100,
              masteryLevel := min (of_int (Math_round (masteryScore tm))) 100\<rparr>
      else tm)"

definition deriveDifficulty :: "topicMastery \<Rightarrow> topicMastery" where
  "deriveDifficulty tm =
     tm\<lparr>recommendedDifficulty :=
          (if masteryLevel tm < 40 then Easy
           else if masteryLevel tm < 70 then Medium
           else Hard)\<rparr>"

definition tmPreSave :: "date \<Rightarrow> topicMastery \<Rightarrow> topicMastery" where
  "tmPreSave now tm = (deriveDifficulty (recomputeMastery tm))\<lparr>lastUpdated := now\<rparr>"

text \<open>\<^verbatim>\<open>new TopicMastery({ userId, topic })\<close>: every other field takes its schema default.\<close>

definition zeroTiers :: "'a::zero tiers" where
  "zeroTiers = \<lparr>easy = 0, medium = 0, hard = 0\<rparr>"

definition newTopicMastery :: "objectId \<Rightarrow> string \<Rightarrow> date \<Rightarrow> topicMastery" where
  "newTopicMastery u t now =
     \<lparr>tmUserId = u, tmTopic = t, masteryLevel = 0,
      problemsAttempted = zeroTiers, problemsSolved = zeroTiers,
      successRates = zeroTiers, successRatesOverall = 0, averageAttempts = zeroTiers,
      lastUpdated = now, recommendedDifficulty = Easy\<rparr>"

subsection \<open>The formula as the specification words it\<close>



section \<open>The other collections\<close>

record problem =
  pId :: objectId
  pDifficulty :: difficulty
  pTopic :: string
  testCases :: "string list"
  isActive :: bool

record attempt =
  attemptNumber :: nat
  attemptCode :: string
  language :: string
  result :: string
  timeTaken :: nat
  testCasesPassed :: nat
  totalTestCases :: nat
  timestamp :: date

record progress =
  prUserId :: objectId
  prProblemId :: objectId
  attempts :: "attempt list"
  status :: status
  prDifficulty :: difficulty
  prTopic :: string
  firstAttemptDate :: "date option"
  solvedDate :: "date option"
  totalAttempts :: nat
  prCreatedAt :: date

text \<open>
  The profile sub-document of a user. \<open>longestStreak\<close> is optional because the code
  reads it as \<^verbatim>\<open>profile.longestStreak || 0\<close>.
\<close>

record user =
  uId :: objectId
  skillLevel :: string
  profileTotalSolved :: nat
  currentStreak :: nat
  longestStreak :: "nat option"
  uIsActive :: bool

record recommendedProblem =
  rpProblemId :: objectId
  rpDifficulty :: difficulty
  rpTopic :: string
  reason :: string
  priority :: nat
  score :: nat

record dailyRecommendation =
  drId :: objectId
  drUserId :: objectId
  drDate :: date
  recommendedProblems :: "recommendedProblem list"
  selectedProblem :: "objectId option"
  completed :: bool
  skipped :: bool

text \<open>The document store: one list per collection, in insertion (natural) order.\<close>

record db =
  users :: "user list"
  problems :: "problem list"
  progresses :: "progress list"
  masteries :: "topicMastery list"
  dailies :: "dailyRecommendation list"

text \<open>What a route hands to \<^verbatim>\<open>success(res, data, message)\<close> or \<^verbatim>\<open>error(res, message, code)\<close>.\<close>

datatype 'a response = Success 'a string | Failure string nat

datatype storeError = DuplicateKey

section \<open>Problem selector\<close>

text \<open>\<^verbatim>\<open>if (topic)\<close>: null and the empty string are falsy.\<close>

definition truthy :: "string option \<Rightarrow> bool" where
  "truthy t = (case t of None \<Rightarrow> False | Some s \<Rightarrow> s \<noteq> [])"

text \<open>\<^verbatim>\<open>{ isActive: true, difficulty }\<close>, with \<^verbatim>\<open>topic\<close> added when it is truthy.\<close>

definition matchesQuery :: "string option \<Rightarrow> difficulty \<Rightarrow> problem \<Rightarrow> bool" where
  "matchesQuery topic d p =
     (isActive p \<and> pDifficulty p = d \<and> (if truthy topic then Some (pTopic p) = topic else True))"

text \<open>\<^verbatim>\<open>Model.findOne(query).skip(n)\<close>: the document at offset n of the matches, or null.\<close>

definition findOneSkip :: "('a \<Rightarrow> bool) \<Rightarrow> nat \<Rightarrow> 'a list \<Rightarrow> 'a option" where
  "findOneSkip q n xs = (case drop n (filter q xs) of [] \<Rightarrow> None | x # _ \<Rightarrow> Some x)"

text \<open>
  \<^verbatim>\<open>getRandomProblem(topic, difficulty)\<close>. The value of \<^verbatim>\<open>Math.random()\<close> is the
  parameter \<open>rnd\<close>. Store reads do not fail here, so the catch block (which repeats the
  fallback query) is not reached.
\<close>

definition getRandomProblem ::
  "problem list \<Rightarrow> real \<Rightarrow> string option \<Rightarrow> difficulty \<Rightarrow> problem option" where
  "getRandomProblem catalog rnd topic d =
     (let count = length (filter (matchesQuery topic d) catalog) in
      if count = 0 then find isActive catalog
      else (let randomIndex = nat \<lfloor>rnd * real count\<rfloor>
            in findOneSkip (matchesQuery topic d) randomIndex catalog))"

section \<open>Topic progression policy\<close>

text \<open>
  \<^verbatim>\<open>topicMasteries.filter(m < 70).sort((a, b) => a.masteryLevel - b.masteryLevel)\<close>:
  \<^verbatim>\<open>Array.prototype.sort\<close> is stable, as \<open>sort_key\<close> is.
\<close>

definition findWeakestTopic :: "topicMastery list \<Rightarrow> topicMastery option" where
  "findWeakestTopic topicMasteries =
     (if length topicMasteries = 0 then None
      else (let sortedTopics =
                  sort_key masteryLevel (filter (\<lambda>t. masteryLevel t < 70) topicMasteries)
            in if length sortedTopics > 0 then Some (hd sortedTopics) else None))"

definition selectDifficultyForTopic :: "topicMastery \<Rightarrow> difficulty" where
  "selectDifficultyForTopic tm =
     (if masteryLevel tm < 30 then Easy
      else if masteryLevel tm < 60 then Medium
      else Hard)"

definition allTopics :: "string list" where
  "allTopics = [''arrays'', ''strings'', ''stack'', ''queue'', ''linked-list'', ''trees'',
                ''graphs'', ''dynamic-programming'']"

definition hasProgress :: "progress list \<Rightarrow> objectId \<Rightarrow> string \<Rightarrow> bool" where
  "hasProgress ps userId topic =
     (find (\<lambda>p. prUserId p = userId \<and> prTopic p = topic) ps \<noteq> None)"

text \<open>The \<^verbatim>\<open>for (const topic of allTopics)\<close> loop of \<^verbatim>\<open>getNextTopic\<close>.\<close>

fun nextTopicLoop :: "string list \<Rightarrow> progress list \<Rightarrow> objectId \<Rightarrow> string list \<Rightarrow> string option" where
  "nextTopicLoop masteredTopics ps userId [] = None"
| "nextTopicLoop masteredTopics ps userId (topic # rest) =
     (if \<not> List.member masteredTopics topic
      then (if \<not> hasProgress ps userId topic then Some topic
            else nextTopicLoop masteredTopics ps userId rest)
      else nextTopicLoop masteredTopics ps userId rest)"

definition getNextTopic :: "progress list \<Rightarrow> objectId \<Rightarrow> topicMastery list \<Rightarrow> string option" where
  "getNextTopic ps userId currentMasteries =
     (let masteredTopics = map tmTopic (filter (\<lambda>t. masteryLevel t \<ge> 50) currentMasteries)
      in nextTopicLoop masteredTopics ps userId allTopics)"

text \<open>
  \<^verbatim>\<open>generateDailyRecommendation(userId)\<close>. The only exception raised inside the try
  block is "User not found"; the catch block answers it with an easy arrays problem. On
  every path \<^verbatim>\<open>getRandomProblem\<close> runs once, so one random value is enough.
\<close>

definition generateDailyRecommendation :: "db \<Rightarrow> objectId \<Rightarrow> real \<Rightarrow> problem option" where
  "generateDailyRecommendation d userId rnd =
     (case find (\<lambda>u. uId u = userId) (users d) of
        None \<Rightarrow> getRandomProblem (problems d) rnd (Some ''arrays'') Easy
      | Some usr \<Rightarrow>
         (let topicMasteries = filter (\<lambda>t. tmUserId t = userId) (masteries d);
              recentProgress =
                take 10 (rev (sort_key prCreatedAt (filter (\<lambda>p. prUserId p = userId) (progresses d))))
          in if length recentProgress = 0
             then getRandomProblem (problems d) rnd (Some ''arrays'') Easy
             else (case findWeakestTopic topicMasteries of
                     Some weakestTopic \<Rightarrow>
                       getRandomProblem (problems d) rnd (Some (tmTopic weakestTopic))
                         (selectDifficultyForTopic weakestTopic)
                   | None \<Rightarrow>
                      (case getNextTopic (progresses d) userId topicMasteries of
                         Some nextTopic \<Rightarrow>
                           (if nextTopic \<noteq> [] then getRandomProblem (problems d) rnd (Some nextTopic) Easy
                            else getRandomProblem (problems d) rnd None
                                   (if skillLevel usr = ''beginner'' then Easy else Medium))
                       | None \<Rightarrow>
                           getRandomProblem (problems d) rnd None
                             (if skillLevel usr = ''beginner'' then Easy else Medium)))))"

section \<open>Recommendation orchestrator: GET /api/problems/daily-recommendation\<close>

definition dayMs :: int where
  "dayMs = 86400000"

text \<open>\<^verbatim>\<open>setHours(0, 0, 0, 0)\<close>: local midnight of the same day.\<close>

definition startOfDay :: "date \<Rightarrow> date" where
  "startOfDay t = t - t mod dayMs"

record dailyPayload =
  dpProblem :: problem
  dpProgress :: "progress option"
  dpRecommendationId :: objectId
  dpReason :: string

text \<open>The filter \<^verbatim>\<open>{ userId, date }\<close> on DailyRecommendation.\<close>

definition sameUserDay :: "objectId \<Rightarrow> date \<Rightarrow> dailyRecommendation \<Rightarrow> bool" where
  "sameUserDay userId day r = (drUserId r = userId \<and> drDate r = day)"

text \<open>\<^verbatim>\<open>populate("selectedProblem")\<close>: the referenced document, or null.\<close>

definition populateSelected :: "problem list \<Rightarrow> dailyRecommendation \<Rightarrow> problem option" where
  "populateSelected ps r =
     (case selectedProblem r of None \<Rightarrow> None | Some i \<Rightarrow> find (\<lambda>p. pId p = i) ps)"

text \<open>
  Lines 53 to 70 of the handler. Reading \<^verbatim>\<open>selectedProblem._id\<close> of a null reference
  throws, and the catch block answers 500.
\<close>

definition respondDaily :: "db \<Rightarrow> objectId \<Rightarrow> dailyRecommendation \<Rightarrow> dailyPayload response" where
  "respondDaily d userId recommendation =
     (case populateSelected (problems d) recommendation of
        None \<Rightarrow> Failure ''Failed to get daily recommendation'' 500
      | Some p \<Rightarrow>
          Success
            \<lparr>dpProblem = p,
             dpProgress = find (\<lambda>q. prUserId q = userId \<and> prProblemId q = pId p) (progresses d),
             dpRecommendationId = drId recommendation,
             dpReason = (case recommendedProblems recommendation of
                           [] \<Rightarrow> ''daily_recommendation''
                         | e # _ \<Rightarrow> if reason e = [] then ''daily_recommendation'' else reason e)\<rparr>
            ''Daily recommendation retrieved successfully'')"

text \<open>Insert under the unique index on (userId, date).\<close>

definition saveDaily ::
  "dailyRecommendation \<Rightarrow> dailyRecommendation list \<Rightarrow> storeError + dailyRecommendation list" where
  "saveDaily r store =
     (if list_ex (sameUserDay (drUserId r) (drDate r)) store
      then Inl DuplicateKey
      else Inr (store @ [r]))"

text \<open>
  The handler. \<open>concurrent\<close> is what other requests do to the DailyRecommendation
  collection between this request's lookup and its save; a request that runs alone has
  \<open>concurrent = id\<close>. \<open>newId\<close> is the ObjectId given to a new document.
\<close>

definition dailyRecommendationHandler ::
  "(dailyRecommendation list \<Rightarrow> dailyRecommendation list) \<Rightarrow> real \<Rightarrow> objectId \<Rightarrow> date
     \<Rightarrow> objectId \<Rightarrow> db \<Rightarrow> dailyPayload response \<times> db" where
  "dailyRecommendationHandler concurrent rnd newId now userId d =
     (let today = startOfDay now in
      case find (sameUserDay userId today) (dailies d) of
        Some recommendation \<Rightarrow> (respondDaily d userId recommendation, d)
      | None \<Rightarrow>
         (let d1 = d\<lparr>dailies := concurrent (dailies d)\<rparr> in
          case generateDailyRecommendation d userId rnd of
            None \<Rightarrow> (Failure ''Failed to get daily recommendation'' 500, d1)
          | Some recommendedProblem \<Rightarrow>
             (let recommendation =
                    \<lparr>drId = newId, drUserId = userId, drDate = today,
                     recommendedProblems =
                       [\<lparr>rpProblemId = pId recommendedProblem,
                         rpDifficulty = pDifficulty recommendedProblem,
                         rpTopic = pTopic recommendedProblem,
                         reason = ''daily_recommendation'', priority = 1, score = 100\<rparr>],
                     selectedProblem = Some (pId recommendedProblem),
                     completed = False, skipped = False\<rparr>
              in case saveDaily recommendation (dailies d1) of
                   Inl e \<Rightarrow> (Failure ''Failed to get daily recommendation'' 500, d1)
                 | Inr store \<Rightarrow>
                     (let d2 = d1\<lparr>dailies := store\<rparr>
                      in (respondDaily d2 userId recommendation, d2)))))"

text \<open>The unique index on (userId, date), as a property of a collection.\<close>

definition uniqueIndex :: "dailyRecommendation list \<Rightarrow> bool" where
  "uniqueIndex store = distinct (map (\<lambda>r. (drUserId r, drDate r)) store)"

definition countFor :: "objectId \<Rightarrow> date \<Rightarrow> dailyRecommendation list \<Rightarrow> nat" where
  "countFor userId day store =
     length (filter (sameUserDay userId day) store)"

section \<open>Recording an attempt: POST /api/problems/:id/submit\<close>

definition newProgress :: "objectId \<Rightarrow> objectId \<Rightarrow> difficulty \<Rightarrow> string \<Rightarrow> date \<Rightarrow> progress" where
  "newProgress userId problemId d t now =
     \<lparr>prUserId = userId, prProblemId = problemId, attempts = [], status = NotAttempted,
      prDifficulty = d, prTopic = t, firstAttemptDate = None, solvedDate = None,
      totalAttempts = 0, prCreatedAt = now\<rparr>"

definition pushAttempt ::
  "string \<Rightarrow> string \<Rightarrow> nat \<Rightarrow> bool \<Rightarrow> nat \<Rightarrow> nat \<Rightarrow> date \<Rightarrow> progress \<Rightarrow> progress" where
  "pushAttempt c lang tt passed tcp tot now p =
     p\<lparr>attempts := attempts p @
          [\<lparr>attemptNumber = length (attempts p) + 1, attemptCode = c, language = lang,
            result = (if passed then ''passed'' else ''failed''), timeTaken = tt,
            testCasesPassed = tcp, totalTestCases = tot, timestamp = now\<rparr>]\<rparr>"

text \<open>
  The "Update status" block, lines 167 to 180. The boolean says whether
  \<^verbatim>\<open>profile.totalSolved\<close> is incremented.
\<close>

definition updateStatus :: "bool \<Rightarrow> date \<Rightarrow> progress \<Rightarrow> progress \<times> bool" where
  "updateStatus passed now p =
     (if passed
      then (let p1 = p\<lparr>status := Solved\<rparr>
            in if solvedDate p1 = None then (p1\<lparr>solvedDate := Some now\<rparr>, True) else (p1, False))
      else (p\<lparr>status := Attempted\<rparr>, False))"

text \<open>\<^verbatim>\<open>userProgressSchema.pre("save")\<close>.\<close>

definition progressPreSave :: "date \<Rightarrow> progress \<Rightarrow> progress" where
  "progressPreSave now p =
     (let p1 = p\<lparr>totalAttempts := length (attempts p)\<rparr>;
          p2 = (if status p1 = Solved \<and> solvedDate p1 = None
                then p1\<lparr>solvedDate := Some now\<rparr> else p1)
      in if length (attempts p2) > 0 \<and> firstAttemptDate p2 = None
         then p2\<lparr>firstAttemptDate := Some (timestamp (hd (attempts p2)))\<rparr>
         else p2)"

fun replaceFirst :: "('a \<Rightarrow> bool) \<Rightarrow> 'a \<Rightarrow> 'a list \<Rightarrow> 'a list" where
  "replaceFirst q y [] = []"
| "replaceFirst q y (x # xs) = (if q x then y # xs else x # replaceFirst q y xs)"

text \<open>\<^verbatim>\<open>updateOne\<close> by a filter: the first matching document is changed in place.\<close>

fun updateFirst :: "('a \<Rightarrow> bool) \<Rightarrow> ('a \<Rightarrow> 'a) \<Rightarrow> 'a list \<Rightarrow> 'a list" where
  "updateFirst q f [] = []"
| "updateFirst q f (x # xs) = (if q x then f x # xs else x # updateFirst q f xs)"

text \<open>\<^verbatim>\<open>doc.save()\<close>: the stored copy of an existing document is overwritten, a new one is appended.\<close>

definition saveDoc :: "('a \<Rightarrow> bool) \<Rightarrow> 'a \<Rightarrow> 'a list \<Rightarrow> 'a list" where
  "saveDoc sameKey doc store =
     (if list_ex sameKey store then replaceFirst sameKey doc store else store @ [doc])"

section \<open>Mastery update: updateTopicMastery\<close>

text \<open>One round of the \<^verbatim>\<open>["easy", "medium", "hard"].forEach\<close> loop.\<close>

definition updateTier :: "progress list \<Rightarrow> difficulty \<Rightarrow> topicMastery \<Rightarrow> topicMastery" where
  "updateTier topicProgress diff tm =
     (let diffProblems = filter (\<lambda>p. prDifficulty p = diff) topicProgress;
          tm1 = tm\<lparr>problemsAttempted := setTier diff (length diffProblems) (problemsAttempted tm)\<rparr>;
          tm2 = tm1\<lparr>problemsSolved :=
                      setTier diff (length (filter (\<lambda>p. status p = Solved) diffProblems))
                        (problemsSolved tm1)\<rparr>
      in if length diffProblems > 0
         then (let tm3 = tm2\<lparr>successRates :=
                               setTier diff
                                 (real (getTier diff (problemsSolved tm2)) / real (length diffProblems) * 100)
                                 (successRates tm2)\<rparr>
               in tm3\<lparr>averageAttempts :=
                        setTier diff
                          (real (foldl (\<lambda>sum p. sum + totalAttempts p) 0 diffProblems)
                             / real (length diffProblems))
                          (averageAttempts tm3)\<rparr>)
         else tm2)"

text \<open>
  \<^verbatim>\<open>updateTopicMastery(userId, topic)\<close>, as a function from store to store. The
  \<^verbatim>\<open>return\<close> of line 135 is the first branch.
\<close>

definition updateTopicMastery :: "objectId \<Rightarrow> string \<Rightarrow> date \<Rightarrow> db \<Rightarrow> db" where
  "updateTopicMastery userId topic now d =
     (let tm0 = (case find (\<lambda>t. tmUserId t = userId \<and> tmTopic t = topic) (masteries d) of
                   Some t \<Rightarrow> t
                 | None \<Rightarrow> newTopicMastery userId topic now);
          topicProgress = filter (\<lambda>p. prUserId p = userId \<and> prTopic p = topic) (progresses d)
      in if length topicProgress = 0 then d
         else (let tm1 = fold (updateTier topicProgress) [Easy, Medium, Hard] tm0
               in d\<lparr>masteries :=
                      saveDoc (\<lambda>t. tmUserId t = userId \<and> tmTopic t = topic) (tmPreSave now tm1)
                        (masteries d)\<rparr>))"

record submitPayload =
  spResult :: string
  spTestCasesPassed :: nat
  spTotalTestCases :: nat
  spAttempt :: attempt

text \<open>
  The submit handler. \<open>rnd\<close> is the value of \<^verbatim>\<open>Math.random()\<close> in the placeholder
  grading; \<open>usr\<close> is the authenticated user.
\<close>

definition submitSolution ::
  "user \<Rightarrow> objectId \<Rightarrow> string \<Rightarrow> string \<Rightarrow> nat \<Rightarrow> real \<Rightarrow> date \<Rightarrow> db
     \<Rightarrow> submitPayload response \<times> db" where
  "submitSolution usr problemId c lang tt rnd now d =
     (if c = [] \<or> tt = 0 then (Failure ''Code and time taken are required'' 400, d)
      else case find (\<lambda>p. pId p = problemId) (problems d) of
        None \<Rightarrow> (Failure ''Problem not found'' 404, d)
      | Some prob \<Rightarrow>
         (if \<not> isActive prob then (Failure ''Problem not found'' 404, d)
          else
           (let tcp = nat \<lfloor>rnd * real (length (testCases prob))\<rfloor> + 1;
                tot = length (testCases prob);
                passed = (tcp = tot);
                sameKey = (\<lambda>q. prUserId q = uId usr \<and> prProblemId q = problemId);
                p0 = (case find sameKey (progresses d) of
                        Some q \<Rightarrow> q
                      | None \<Rightarrow> newProgress (uId usr) problemId (pDifficulty prob) (pTopic prob) now);
                p1 = pushAttempt c lang tt passed tcp tot now p0;
                (p2, inc) = updateStatus passed now p1;
                d1 = (if inc
                      then d\<lparr>users := updateFirst (\<lambda>x. uId x = uId usr)
                                         (\<lambda>x. x\<lparr>profileTotalSolved := profileTotalSolved x + 1\<rparr>)
                                         (users d)\<rparr>
                      else d);
                p3 = progressPreSave now p2;
                d2 = d1\<lparr>progresses := saveDoc sameKey p3 (progresses d1)\<rparr>;
                d3 = updateTopicMastery (uId usr) (pTopic prob) now d2
            in (Success
                  \<lparr>spResult = (if passed then ''passed'' else ''failed''),
                   spTestCasesPassed = tcp, spTotalTestCases = tot,
                   spAttempt = last (attempts p3)\<rparr>
                  (if passed then ''Solution accepted!'' else ''Solution failed some test cases''),
                d3))))"

section \<open>Streak tracker\<close>

text \<open>
  \<^verbatim>\<open>for (let i = 0; i < 30; i++) { if (hit) currentStreak++; else break; }\<close>, the loop
  of both the route and the cleanup job; \<open>hit i\<close> is the test made for day \<open>i\<close>.
\<close>

function streakLoop :: "(nat \<Rightarrow> bool) \<Rightarrow> nat \<Rightarrow> nat \<Rightarrow> nat" where
  "streakLoop hit i streak =
     (if i < 30 then (if hit i then streakLoop hit (i + 1) (streak + 1) else streak)
      else streak)"
  by pat_completeness auto
termination
  by (relation "measure (\<lambda>(hit, i, streak). 30 - i)") auto



definition orZero :: "nat option \<Rightarrow> nat" where
  "orZero v = (case v of None \<Rightarrow> 0 | Some n \<Rightarrow> n)"




text \<open>
  The cleanup job: the test is
  \<^verbatim>\<open>findOne({ userId, date: checkDate, completed: true })\<close>.
\<close>

definition jobHit :: "dailyRecommendation list \<Rightarrow> objectId \<Rightarrow> date \<Rightarrow> nat \<Rightarrow> bool" where
  "jobHit store userId today i =
     (let checkDate = today - int i * dayMs
      in find (\<lambda>r. drUserId r = userId \<and> drDate r = checkDate \<and> completed r) store \<noteq> None)"

definition jobStreak :: "dailyRecommendation list \<Rightarrow> objectId \<Rightarrow> date \<Rightarrow> nat" where
  "jobStreak store userId now = streakLoop (jobHit store userId (startOfDay now)) 0 0"

text \<open>One round of the job's loop over the active users.\<close>

definition jobUpdateUser :: "date \<Rightarrow> user \<Rightarrow> db \<Rightarrow> db" where
  "jobUpdateUser now usr d =
     (let cur = jobStreak (dailies d) (uId usr) now
      in d\<lparr>users := updateFirst (\<lambda>x. uId x = uId usr)
               (\<lambda>x. x\<lparr>currentStreak := cur,
                      longestStreak := Some (max cur (orZero (longestStreak usr)))\<rparr>)
               (users d)\<rparr>)"





section \<open>The policy as the specification words it\<close>

definition spec_weakest :: "topicMastery list \<Rightarrow> topicMastery option" where
  "spec_weakest tms =
     find (\<lambda>t. masteryLevel t < 70
               \<and> list_all (\<lambda>x. masteryLevel x < 70 \<longrightarrow> masteryLevel t \<le> masteryLevel x) tms) tms"


section \<open>The streak as the specification words it\<close>


section \<open>Sample data\<close>

definition sampleMastery :: topicMastery where
  "sampleMastery =
     (newTopicMastery 1 ''arrays'' 0)
       \<lparr>problemsAttempted := \<lparr>easy = 2, medium = 0, hard = 0\<rparr>,
        problemsSolved := \<lparr>easy = 1, medium = 0, hard = 0\<rparr>\<rparr>"

definition problem1 :: problem where
  "problem1 = \<lparr>pId = 1, pDifficulty = Easy, pTopic = ''arrays'', testCases = [''a'', ''b''], isActive = True\<rparr>"
definition problem2 :: problem where
  "problem2 = \<lparr>pId = 2, pDifficulty = Easy, pTopic = ''arrays'', testCases = [''a''], isActive = False\<rparr>"
definition problem3 :: problem where
  "problem3 = \<lparr>pId = 3, pDifficulty = Easy, pTopic = ''arrays'', testCases = [''a''], isActive = True\<rparr>"
definition problem4 :: problem where
  "problem4 = \<lparr>pId = 4, pDifficulty = Medium, pTopic = ''strings'', testCases = [''a''], isActive = True\<rparr>"
definition problem5 :: problem where
  "problem5 = \<lparr>pId = 5, pDifficulty = Easy, pTopic = ''stack'', testCases = [''a''], isActive = True\<rparr>"

definition sampleCatalog :: "problem list" where
  "sampleCatalog = [problem1, problem2, problem3, problem4, problem5]"

definition sampleUser :: user where
  "sampleUser = \<lparr>uId = 1, skillLevel = ''beginner'', profileTotalSolved = 1, currentStreak = 0,
     longestStreak = Some 2, uIsActive = True\<rparr>"

definition sampleProgress :: progress where
  "sampleProgress =
     \<lparr>prUserId = 1, prProblemId = 1,
      attempts = [\<lparr>attemptNumber = 1, attemptCode = ''x'', language = ''javascript'',
                   result = ''passed'', timeTaken = 5, testCasesPassed = 2, totalTestCases = 2,
                   timestamp = 100\<rparr>],
      status = Solved, prDifficulty = Easy, prTopic = ''arrays'',
      firstAttemptDate = Some 100, solvedDate = Some 100, totalAttempts = 1, prCreatedAt = 100\<rparr>"

definition masteryOf :: "string \<Rightarrow> real \<Rightarrow> topicMastery" where
  "masteryOf t lvl = (newTopicMastery 1 t 0)\<lparr>masteryLevel := lvl\<rparr>"

definition weakDb :: db where
  "weakDb = \<lparr>users = [sampleUser], problems = sampleCatalog, progresses = [sampleProgress],
     masteries = [masteryOf ''arrays'' 80, masteryOf ''strings'' 30, masteryOf ''trees'' 30],
     dailies = []\<rparr>"


definition dayRec :: dailyRecommendation where
  "dayRec =
     \<lparr>drId = 7, drUserId = 1, drDate = 0,
      recommendedProblems =
        [\<lparr>rpProblemId = 3, rpDifficulty = Easy, rpTopic = ''arrays'',
          reason = ''daily_recommendation'', priority = 1, score = 100\<rparr>],
      selectedProblem = Some 3, completed = False, skipped = False\<rparr>"

definition dailyDb :: db where
  "dailyDb = weakDb\<lparr>dailies := [dayRec]\<rparr>"


definition rivalRequest :: "dailyRecommendation list \<Rightarrow> dailyRecommendation list" where
  "rivalRequest store = store @ [dayRec]"



lemmas sample_defs = sampleCatalog_def problem1_def problem2_def problem3_def problem4_def
  problem5_def

section \<open>Properties of the mastery model\<close>




lemma masteryScore_nonneg: "0 \<le> masteryScore tm"
  unfolding masteryScore_def Let_def by (intro add_nonneg_nonneg mult_nonneg_nonneg divide_nonneg_nonneg) simp_all

lemma Math_round_nonneg: "0 \<le> x \<Longrightarrow> 0 \<le> Math_round x"
  unfolding Math_round_def by simp

lemma masteryLevel_tmPreSave:
  "masteryLevel (tmPreSave now tm) = masteryLevel (recomputeMastery tm)"
  by (simp add: tmPreSave_def deriveDifficulty_def)

lemma successRatesOverall_tmPreSave:
  "successRatesOverall (tmPreSave now tm) = successRatesOverall (recomputeMastery tm)"
  by (simp add: tmPreSave_def deriveDifficulty_def)



text \<open>
  Claim C4. Whatever the counts, the hook leaves masteryLevel an integer between 0 and 100:
  with an attempted problem it is the rounded, capped score; with none the hook does not
  touch it (no quotient is formed), so it keeps the prior value, which the schema bounds
  by 0 and 100 and which is 0 for a new document.
\<close>

theorem mastery_in_range:
  "(totalAttempted tm > 0 \<longrightarrow>
      masteryLevel (tmPreSave now tm) \<in> \<int>
      \<and> 0 \<le> masteryLevel (tmPreSave now tm) \<and> masteryLevel (tmPreSave now tm) \<le> 100)
   \<and> (totalAttempted tm = 0 \<longrightarrow>
        masteryLevel (tmPreSave now tm) = masteryLevel tm
        \<and> successRatesOverall (tmPreSave now tm) = successRatesOverall tm)
   \<and> (masteryLevel tm \<in> \<int> \<and> 0 \<le> masteryLevel tm \<and> masteryLevel tm \<le> 100 \<longrightarrow>
        masteryLevel (tmPreSave now tm) \<in> \<int>
        \<and> 0 \<le> masteryLevel (tmPreSave now tm) \<and> masteryLevel (tmPreSave now tm) \<le> 100)
   \<and> masteryLevel (tmPreSave now (newTopicMastery u t d)) = 0"
proof -
  have computed: "masteryLevel (tmPreSave now tm) \<in> \<int>
      \<and> 0 \<le> masteryLevel (tmPreSave now tm) \<and> masteryLevel (tmPreSave now tm) \<le> 100"
    if "totalAttempted tm > 0"
  proof -
    have eq: "masteryLevel (tmPreSave now tm) = min (of_int (Math_round (masteryScore tm))) 100"
      using that by (simp add: masteryLevel_tmPreSave recomputeMastery_def)
    have "0 \<le> Math_round (masteryScore tm)"
      by (rule Math_round_nonneg) (rule masteryScore_nonneg)
    then have "(0::real) \<le> of_int (Math_round (masteryScore tm))" by simp
    moreover have "min (of_int (Math_round (masteryScore tm))) (100::real) \<in> \<int>"
      by (simp add: min_def)
    ultimately show ?thesis unfolding eq by simp
  qed
  have kept: "masteryLevel (tmPreSave now tm) = masteryLevel tm
      \<and> successRatesOverall (tmPreSave now tm) = successRatesOverall tm"
    if "totalAttempted tm = 0"
    using that
    by (simp add: masteryLevel_tmPreSave successRatesOverall_tmPreSave recomputeMastery_def)
  have fresh: "masteryLevel (tmPreSave now (newTopicMastery u t d)) = 0"
    by (simp add: masteryLevel_tmPreSave recomputeMastery_def totalAttempted_def
        newTopicMastery_def zeroTiers_def)
  from computed kept fresh show ?thesis
    by (cases "totalAttempted tm = 0") auto
qed

theorem mastery_in_range_witness:
  "totalAttempted sampleMastery > 0
   \<and> masteryLevel (tmPreSave 5 sampleMastery) \<in> \<int>
   \<and> 0 \<le> masteryLevel (tmPreSave 5 sampleMastery)
   \<and> masteryLevel (tmPreSave 5 sampleMastery) \<le> 100
   \<and> totalAttempted ((newTopicMastery 1 ''trees'' 0)\<lparr>masteryLevel := 42\<rparr>) = 0
   \<and> masteryLevel ((newTopicMastery 1 ''trees'' 0)\<lparr>masteryLevel := 42\<rparr>) \<in> \<int>
   \<and> masteryLevel (tmPreSave 5 ((newTopicMastery 1 ''trees'' 0)\<lparr>masteryLevel := 42\<rparr>)) = 42"
proof -
  have pos: "totalAttempted sampleMastery > 0"
    by (simp add: totalAttempted_def sampleMastery_def newTopicMastery_def)
  have zero: "totalAttempted ((newTopicMastery 1 ''trees'' 0)\<lparr>masteryLevel := 42\<rparr>) = 0"
    by (simp add: totalAttempted_def newTopicMastery_def zeroTiers_def)
  have lvl: "masteryLevel ((newTopicMastery 1 ''trees'' 0)\<lparr>masteryLevel := 42\<rparr>) = 42"
    by simp
  from mastery_in_range [of sampleMastery 5] pos
  have a: "masteryLevel (tmPreSave 5 sampleMastery) \<in> \<int>
      \<and> 0 \<le> masteryLevel (tmPreSave 5 sampleMastery)
      \<and> masteryLevel (tmPreSave 5 sampleMastery) \<le> 100"
    by blast
  from mastery_in_range [of "(newTopicMastery 1 ''trees'' 0)\<lparr>masteryLevel := 42\<rparr>" 5] zero
  have b: "masteryLevel (tmPreSave 5 ((newTopicMastery 1 ''trees'' 0)\<lparr>masteryLevel := 42\<rparr>))
      = masteryLevel ((newTopicMastery 1 ''trees'' 0)\<lparr>masteryLevel := 42\<rparr>)"
    by blast
  from pos a zero b lvl show ?thesis by simp
qed

section \<open>Properties of the problem selector\<close>





lemma find_Some_mem: "find P xs = Some x \<Longrightarrow> x \<in> set xs \<and> P x"
  by (auto simp: find_Some_iff)










section \<open>Properties of the topic progression policy\<close>

lemma find_as_filter: "find P xs = (case filter P xs of [] \<Rightarrow> None | y # _ \<Rightarrow> Some y)"
  by (induction xs) auto

lemma find_filter: "find P (filter Q xs) = find (\<lambda>x. Q x \<and> P x) xs"
  by (induction xs) auto

lemma sort_key_hd_min:
  assumes "xs \<noteq> []"
  shows "hd (sort_key f xs) \<in> set xs \<and> (\<forall>x\<in>set xs. f (hd (sort_key f xs)) \<le> f x)"
proof -
  from assms have "sort_key f xs \<noteq> []" by (metis length_sort length_0_conv)
  then obtain h t where ht: "sort_key f xs = h # t" by (cases "sort_key f xs") auto
  have "sorted (map f (sort_key f xs))" by (rule sorted_sort_key)
  then have "\<forall>y\<in>set t. f h \<le> f y" unfolding ht by simp
  moreover have "set xs = insert h (set t)" using set_sort [of f xs] ht by simp
  ultimately show ?thesis unfolding ht by auto
qed

lemma sort_key_hd_first:
  assumes "xs \<noteq> []"
  shows "find (\<lambda>t. \<forall>x\<in>set xs. f t \<le> f x) xs = Some (hd (sort_key f xs))"
proof -
  let ?h = "hd (sort_key f xs)"
  from assms have ne: "sort_key f xs \<noteq> []" by (metis length_sort length_0_conv)
  from sort_key_hd_min [OF assms, of f]
  have mem: "?h \<in> set xs" and least: "\<forall>x\<in>set xs. f ?h \<le> f x" by auto
  have eqv: "(\<forall>x\<in>set xs. f t \<le> f x) \<longleftrightarrow> f t = f ?h" if "t \<in> set xs" for t
    using that mem least by (metis order_antisym order_refl)
  have "find (\<lambda>t. \<forall>x\<in>set xs. f t \<le> f x) xs = find (\<lambda>t. f t = f ?h) xs"
    by (rule find_cong) (auto simp: eqv)
  also have "\<dots> = (case filter (\<lambda>t. f t = f ?h) xs of [] \<Rightarrow> None | y # _ \<Rightarrow> Some y)"
    by (rule find_as_filter)
  also have "filter (\<lambda>t. f t = f ?h) xs = filter (\<lambda>t. f t = f ?h) (sort_key f xs)"
    by (rule sort_key_stable [symmetric])
  also have "(case filter (\<lambda>t. f t = f ?h) (sort_key f xs) of [] \<Rightarrow> None | y # _ \<Rightarrow> Some y) = Some ?h"
    using ne by (cases "sort_key f xs") auto
  finally show ?thesis .
qed

lemma findWeakestTopic_Some:
  assumes "filter (\<lambda>t. masteryLevel t < 70) tms \<noteq> []"
  shows "findWeakestTopic tms = Some (hd (sort_key masteryLevel (filter (\<lambda>t. masteryLevel t < 70) tms)))"
proof -
  from assms have tne: "tms \<noteq> []" by auto
  from assms have sne: "sort_key masteryLevel (filter (\<lambda>t. masteryLevel t < 70) tms) \<noteq> []"
    by (metis length_sort length_0_conv)
  show ?thesis using tne sne by (simp add: findWeakestTopic_def Let_def)
qed

lemma findWeakestTopic_spec: "findWeakestTopic tms = spec_weakest tms"
proof (cases "filter (\<lambda>t. masteryLevel t < 70) tms = []")
  case True
  then have "\<forall>t\<in>set tms. \<not> masteryLevel t < 70" by (simp add: filter_empty_conv)
  then have "spec_weakest tms = None" by (auto simp: spec_weakest_def find_None_iff)
  with True show ?thesis by (simp add: findWeakestTopic_def)
next
  case False
  let ?ws = "filter (\<lambda>t. masteryLevel t < 70) tms"
  have "findWeakestTopic tms = Some (hd (sort_key masteryLevel ?ws))"
    by (rule findWeakestTopic_Some [OF False])
  also have "\<dots> = find (\<lambda>t. \<forall>x\<in>set ?ws. masteryLevel t \<le> masteryLevel x) ?ws"
    by (rule sort_key_hd_first [OF False, symmetric])
  also have "\<dots> = find (\<lambda>t. masteryLevel t < 70 \<and> (\<forall>x\<in>set ?ws. masteryLevel t \<le> masteryLevel x)) tms"
    by (rule find_filter)
  also have "\<dots> = spec_weakest tms"
    unfolding spec_weakest_def by (rule find_cong) (auto simp: list_all_iff)
  finally show ?thesis .
qed




lemma recentProgress_nonempty:
  assumes "list_ex (\<lambda>p. prUserId p = u) ps"
  shows "(length (take 10 (rev (sort_key prCreatedAt (filter (\<lambda>p. prUserId p = u) ps)))) = 0) = False"
proof -
  from assms have "filter (\<lambda>p. prUserId p = u) ps \<noteq> []"
    by (simp add: list_ex_iff filter_empty_conv)
  then show ?thesis by (cases "filter (\<lambda>p. prUserId p = u) ps") simp_all
qed

text \<open>What \<^verbatim>\<open>generateDailyRecommendation\<close> does for a known user with some progress.\<close>

lemma generate_returning_user:
  assumes "find (\<lambda>x. uId x = u) (users d) = Some usr"
    and "list_ex (\<lambda>p. prUserId p = u) (progresses d)"
  shows "generateDailyRecommendation d u rnd =
     (case findWeakestTopic (filter (\<lambda>t. tmUserId t = u) (masteries d)) of
        Some w \<Rightarrow> getRandomProblem (problems d) rnd (Some (tmTopic w)) (selectDifficultyForTopic w)
      | None \<Rightarrow>
         (case getNextTopic (progresses d) u (filter (\<lambda>t. tmUserId t = u) (masteries d)) of
            Some t \<Rightarrow> (if t \<noteq> [] then getRandomProblem (problems d) rnd (Some t) Easy
                       else getRandomProblem (problems d) rnd None
                              (if skillLevel usr = ''beginner'' then Easy else Medium))
          | None \<Rightarrow> getRandomProblem (problems d) rnd None
                      (if skillLevel usr = ''beginner'' then Easy else Medium)))"
  unfolding generateDailyRecommendation_def Let_def recentProgress_nonempty [OF assms(2)]
  using assms(1) by simp

lemma weakDb_masteries:
  "filter (\<lambda>t. tmUserId t = 1) (masteries weakDb)
     = [masteryOf ''arrays'' 80, masteryOf ''strings'' 30, masteryOf ''trees'' 30]"
  by (simp add: weakDb_def masteryOf_def newTopicMastery_def)


text \<open>
  Claim C5. For a known user with at least one Progress record and a TopicMastery record
  below 70, the policy asks the selector for the topic of the first record, in input order,
  that is below 70 and has the least masteryLevel of the records below 70, with difficulty
  easy below 30, medium below 60 and hard otherwise.
\<close>

theorem weakest_topic_rule:
  assumes "find (\<lambda>x. uId x = u) (users d) = Some usr"
    and "list_ex (\<lambda>p. prUserId p = u) (progresses d)"
    and "list_ex (\<lambda>t. masteryLevel t < 70) (filter (\<lambda>t. tmUserId t = u) (masteries d))"
  shows "\<exists>w. spec_weakest (filter (\<lambda>t. tmUserId t = u) (masteries d)) = Some w
           \<and> findWeakestTopic (filter (\<lambda>t. tmUserId t = u) (masteries d)) = Some w
           \<and> generateDailyRecommendation d u rnd =
               getRandomProblem (problems d) rnd (Some (tmTopic w))
                 (if masteryLevel w < 30 then Easy else if masteryLevel w < 60 then Medium else Hard)"
proof -
  let ?tms = "filter (\<lambda>t. tmUserId t = u) (masteries d)"
  from assms(3) have "filter (\<lambda>t. masteryLevel t < 70) ?tms \<noteq> []"
    by (auto simp: list_ex_iff filter_empty_conv)
  from findWeakestTopic_Some [OF this]
  obtain w where w: "findWeakestTopic ?tms = Some w" by blast
  have "generateDailyRecommendation d u rnd =
          getRandomProblem (problems d) rnd (Some (tmTopic w)) (selectDifficultyForTopic w)"
    using generate_returning_user [OF assms(1,2), of rnd] w by simp
  with w show ?thesis
    by (simp add: findWeakestTopic_spec [symmetric] selectDifficultyForTopic_def)
qed

theorem weakest_topic_rule_witness:
  "find (\<lambda>x. uId x = 1) (users weakDb) = Some sampleUser
   \<and> list_ex (\<lambda>p. prUserId p = 1) (progresses weakDb)
   \<and> list_ex (\<lambda>t. masteryLevel t < 70) (filter (\<lambda>t. tmUserId t = 1) (masteries weakDb))
   \<and> findWeakestTopic (filter (\<lambda>t. tmUserId t = 1) (masteries weakDb))
       = Some (masteryOf ''strings'' 30)
   \<and> generateDailyRecommendation weakDb 1 0 = Some problem4"
proof -
  have h1: "find (\<lambda>x. uId x = 1) (users weakDb) = Some sampleUser"
    by (simp add: weakDb_def sampleUser_def)
  have h2: "list_ex (\<lambda>p. prUserId p = 1) (progresses weakDb)"
    by (simp add: weakDb_def sampleProgress_def)
  have h3: "list_ex (\<lambda>t. masteryLevel t < 70) (filter (\<lambda>t. tmUserId t = 1) (masteries weakDb))"
    unfolding weakDb_masteries by (simp add: masteryOf_def)
  have sw: "spec_weakest (filter (\<lambda>t. tmUserId t = 1) (masteries weakDb))
              = Some (masteryOf ''strings'' 30)"
    unfolding weakDb_masteries by (simp add: spec_weakest_def masteryOf_def)
  have pick: "getRandomProblem (problems weakDb) 0 (Some ''strings'') Medium = Some problem4"
    by (simp add: getRandomProblem_def findOneSkip_def matchesQuery_def truthy_def weakDb_def
        sample_defs)
  from weakest_topic_rule [OF h1 h2 h3, of 0] sw
  have "findWeakestTopic (filter (\<lambda>t. tmUserId t = 1) (masteries weakDb))
          = Some (masteryOf ''strings'' 30)
        \<and> generateDailyRecommendation weakDb 1 0
          = getRandomProblem (problems weakDb) 0 (Some ''strings'') Medium"
    by (auto simp: masteryOf_def newTopicMastery_def)
  with h1 h2 h3 pick show ?thesis by simp
qed




section \<open>Properties of the recommendation orchestrator\<close>

lemma countFor_le_one: "uniqueIndex store \<Longrightarrow> countFor u day store \<le> 1"
proof (induction store)
  case Nil
  then show ?case by (simp add: countFor_def)
next
  case (Cons x xs)
  then have ih: "countFor u day xs \<le> 1" by (simp add: uniqueIndex_def)
  show ?case
  proof (cases "sameUserDay u day x")
    case True
    from Cons.prems have "(drUserId x, drDate x) \<notin> set (map (\<lambda>r. (drUserId r, drDate r)) xs)"
      by (simp add: uniqueIndex_def)
    with True have "filter (sameUserDay u day) xs = []"
      by (force simp: filter_empty_conv image_iff sameUserDay_def)
    with True show ?thesis by (simp add: countFor_def)
  next
    case False
    with ih show ?thesis by (auto simp: countFor_def)
  qed
qed

lemma find_Some_countFor:
  "find (sameUserDay u day) store = Some r \<Longrightarrow> 1 \<le> countFor u day store"
  by (induction store) (auto simp: countFor_def split: if_splits)

lemma find_None_countFor:
  "find (sameUserDay u day) store = None \<Longrightarrow> countFor u day store = 0"
  by (auto simp: countFor_def find_None_iff filter_empty_conv)

lemma handler_existing:
  assumes "find (sameUserDay u (startOfDay now)) (dailies d) = Some r"
  shows "dailyRecommendationHandler concurrent rnd newId now u d = (respondDaily d u r, d)"
  using assms by (simp add: dailyRecommendationHandler_def Let_def)

lemma populateSelected_Some:
  "populateSelected ps r = Some p \<Longrightarrow> selectedProblem r = Some (pId p) \<and> p \<in> set ps"
  unfolding populateSelected_def
  by (cases "selectedProblem r") (auto dest: find_Some_mem)

lemma startOfDay_5000: "startOfDay 5000 = 0"
  by (simp add: startOfDay_def dayMs_def)

lemma startOfDay_9000: "startOfDay 9000 = 0"
  by (simp add: startOfDay_def dayMs_def)

text \<open>
  Claim C1. When a DailyRecommendation of the user exists for the day and its selected
  problem resolves, the route answers with that record (its id, its selected problem) and
  returns the store as it found it, whatever the random value, the fresh ObjectId and the
  other requests are: nothing is recomputed and nothing is written. Under the unique index
  the collection then holds exactly one record of the user for the day, and a second request
  on the same day gives the same answer and the same store.
\<close>

theorem daily_existing_returned:
  assumes "uniqueIndex (dailies d)"
    and "find (sameUserDay u (startOfDay now)) (dailies d) = Some r"
    and "populateSelected (problems d) r = Some p"
    and "startOfDay now' = startOfDay now"
  shows "dailyRecommendationHandler concurrent rnd newId now u d = (respondDaily d u r, d)
       \<and> (\<exists>payload msg. respondDaily d u r = Success payload msg
             \<and> dpRecommendationId payload = drId r
             \<and> dpProblem payload = p \<and> selectedProblem r = Some (pId p))
       \<and> countFor u (startOfDay now)
            (dailies (snd (dailyRecommendationHandler concurrent rnd newId now u d))) = 1
       \<and> dailyRecommendationHandler concurrent' rnd' newId' now' u
            (snd (dailyRecommendationHandler concurrent rnd newId now u d))
          = dailyRecommendationHandler concurrent rnd newId now u d"
proof -
  have first: "dailyRecommendationHandler concurrent rnd newId now u d = (respondDaily d u r, d)"
    by (rule handler_existing [OF assms(2)])
  have again: "dailyRecommendationHandler concurrent' rnd' newId' now' u d = (respondDaily d u r, d)"
    using assms(2) by (intro handler_existing) (simp add: assms(4))
  have resp: "\<exists>payload msg. respondDaily d u r = Success payload msg
             \<and> dpRecommendationId payload = drId r
             \<and> dpProblem payload = p \<and> selectedProblem r = Some (pId p)"
    using assms(3) populateSelected_Some [OF assms(3)] by (simp add: respondDaily_def)
  have "countFor u (startOfDay now) (dailies d) = 1"
    using countFor_le_one [OF assms(1), of u "startOfDay now"] find_Some_countFor [OF assms(2)]
    by linarith
  with first again resp show ?thesis by simp
qed

theorem daily_existing_returned_witness:
  "uniqueIndex (dailies dailyDb)
   \<and> find (sameUserDay 1 (startOfDay 5000)) (dailies dailyDb) = Some dayRec
   \<and> populateSelected (problems dailyDb) dayRec = Some problem3
   \<and> startOfDay 9000 = startOfDay 5000
   \<and> dailyRecommendationHandler rivalRequest (1 / 2) 9 5000 1 dailyDb
        = (Success \<lparr>dpProblem = problem3, dpProgress = None, dpRecommendationId = 7,
                     dpReason = ''daily_recommendation''\<rparr>
             ''Daily recommendation retrieved successfully'', dailyDb)
   \<and> countFor 1 0 (dailies dailyDb) = 1
   \<and> dailyRecommendationHandler (\<lambda>s. s) 0 10 9000 1 dailyDb
        = dailyRecommendationHandler rivalRequest (1 / 2) 9 5000 1 dailyDb"
proof -
  have h1: "uniqueIndex (dailies dailyDb)"
    by (simp add: uniqueIndex_def dailyDb_def)
  have h2: "find (sameUserDay 1 (startOfDay 5000)) (dailies dailyDb) = Some dayRec"
    by (simp add: startOfDay_5000 dailyDb_def sameUserDay_def dayRec_def)
  have h3: "populateSelected (problems dailyDb) dayRec = Some problem3"
    by (simp add: populateSelected_def dailyDb_def weakDb_def dayRec_def sample_defs)
  have h4: "startOfDay 9000 = startOfDay 5000"
    by (simp add: startOfDay_5000 startOfDay_9000)
  have resp: "respondDaily dailyDb 1 dayRec
        = Success \<lparr>dpProblem = problem3, dpProgress = None, dpRecommendationId = 7,
                    dpReason = ''daily_recommendation''\<rparr>
            ''Daily recommendation retrieved successfully''"
    unfolding respondDaily_def h3
    by (simp add: dailyDb_def weakDb_def dayRec_def sampleProgress_def problem3_def)
  note t = daily_existing_returned [OF h1 h2 h3 h4, of rivalRequest "1 / 2" 9 "\<lambda>s. s" 0 10]
  from t have f1: "dailyRecommendationHandler rivalRequest (1 / 2) 9 5000 1 dailyDb
          = (respondDaily dailyDb 1 dayRec, dailyDb)"
    by (rule conjunct1)
  from t have f3: "countFor 1 (startOfDay 5000)
      (dailies (snd (dailyRecommendationHandler rivalRequest (1 / 2) 9 5000 1 dailyDb))) = 1"
    by blast
  from t have f4: "dailyRecommendationHandler (\<lambda>s. s) 0 10 9000 1
      (snd (dailyRecommendationHandler rivalRequest (1 / 2) 9 5000 1 dailyDb))
        = dailyRecommendationHandler rivalRequest (1 / 2) 9 5000 1 dailyDb"
    by blast
  from f3 have g3: "countFor 1 0 (dailies dailyDb) = 1"
    unfolding f1 by (simp add: startOfDay_5000)
  from f4 have g4: "dailyRecommendationHandler (\<lambda>s. s) 0 10 9000 1 dailyDb
        = dailyRecommendationHandler rivalRequest (1 / 2) 9 5000 1 dailyDb"
    unfolding f1 by simp
  from f1 resp have g1: "dailyRecommendationHandler rivalRequest (1 / 2) 9 5000 1 dailyDb
        = (Success \<lparr>dpProblem = problem3, dpProgress = None, dpRecommendationId = 7,
                     dpReason = ''daily_recommendation''\<rparr>
             ''Daily recommendation retrieved successfully'', dailyDb)"
    by simp
  from h1 h2 h3 h4 g1 g3 g4 show ?thesis by blast
qed

lemma saveDaily_fresh:
  "find (sameUserDay (drUserId x) (drDate x)) store = None
     \<Longrightarrow> saveDaily x store = Inr (store @ [x])"
  by (auto simp: saveDaily_def find_None_iff list_ex_iff)


lemma find_append_new:
  "find P xs = None \<Longrightarrow> P x \<Longrightarrow> find P (xs @ [x]) = Some x"
  by (induction xs) (auto split: if_splits)

text \<open>A request that runs alone: a second request of the same day repeats its answer.\<close>

lemma daily_twice_same:
  assumes "dailyRecommendationHandler (\<lambda>s. s) rnd newId now u d = (Success payload msg, d')"
    and "startOfDay now' = startOfDay now"
  shows "dailyRecommendationHandler concurrent' rnd' newId' now' u d' = (Success payload msg, d')"
proof (cases "find (sameUserDay u (startOfDay now)) (dailies d)")
  case (Some r)
  from handler_existing [OF Some, of "\<lambda>s. s" rnd newId] assms(1)
  have eq: "respondDaily d u r = Success payload msg" "d' = d" by simp_all
  have "dailyRecommendationHandler concurrent' rnd' newId' now' u d = (respondDaily d u r, d)"
    using Some by (intro handler_existing) (simp add: assms(2))
  with eq show ?thesis by simp
next
  case None
  show ?thesis
  proof (cases "generateDailyRecommendation d u rnd")
    case gNone: None
    with None assms(1) show ?thesis
      by (simp add: dailyRecommendationHandler_def Let_def)
  next
    case (Some rp)
    define x where "x =
       \<lparr>drId = newId, drUserId = u, drDate = startOfDay now,
        recommendedProblems =
          [\<lparr>rpProblemId = pId rp, rpDifficulty = pDifficulty rp, rpTopic = pTopic rp,
            reason = ''daily_recommendation'', priority = 1, score = 100\<rparr>],
        selectedProblem = Some (pId rp), completed = False, skipped = False\<rparr>"
    have key: "drUserId x = u" "drDate x = startOfDay now" by (simp_all add: x_def)
    have keyp: "sameUserDay u (startOfDay now) x" by (simp add: sameUserDay_def key)
    have sv: "saveDaily x (dailies d) = Inr (dailies d @ [x])"
      by (rule saveDaily_fresh) (simp add: key None)
    have run: "dailyRecommendationHandler (\<lambda>s. s) rnd newId now u d
        = (respondDaily (d\<lparr>dailies := dailies d @ [x]\<rparr>) u x, d\<lparr>dailies := dailies d @ [x]\<rparr>)"
      using None Some sv unfolding x_def
      by (simp add: dailyRecommendationHandler_def Let_def)
    from run assms(1) have eq2: "d' = d\<lparr>dailies := dailies d @ [x]\<rparr>" by simp
    from run assms(1)
    have eq1: "respondDaily (d\<lparr>dailies := dailies d @ [x]\<rparr>) u x = Success payload msg" by simp
    have "find (sameUserDay u (startOfDay now')) (dailies d') = Some x"
      unfolding eq2 assms(2) using None keyp by (simp add: find_append_new)
    from handler_existing [OF this, of concurrent' rnd' newId'] eq1 show ?thesis
      unfolding eq2 by simp
  qed
qed






section \<open>Properties of the streak tracker\<close>

declare streakLoop.simps [simp del]



















lemma dailies_jobUpdateUser: "dailies (jobUpdateUser now x d) = dailies d"
  by (simp add: jobUpdateUser_def Let_def)

lemma job_fold_dailies: "dailies (fold (jobUpdateUser now) us d) = dailies d"
  by (induction us arbitrary: d) (simp_all add: dailies_jobUpdateUser)








section \<open>Properties of the mastery update\<close>

lemma progresses_updateTopicMastery:
  "progresses (updateTopicMastery u t now d) = progresses d"
  by (simp add: updateTopicMastery_def Let_def)

lemma users_updateTopicMastery:
  "users (updateTopicMastery u t now d) = users d"
  by (simp add: updateTopicMastery_def Let_def)

text \<open>
  Claim C10. When the user has no Progress record of the topic, \<^verbatim>\<open>updateTopicMastery\<close>
  returns before saving: the whole store, and so the TopicMastery collection, is as it was.
  No document is created and an existing one is not touched.
\<close>

theorem mastery_update_without_progress:
  assumes "\<not> list_ex (\<lambda>p. prUserId p = u \<and> prTopic p = t) (progresses d)"
  shows "updateTopicMastery u t now d = d"
proof -
  from assms have "filter (\<lambda>p. prUserId p = u \<and> prTopic p = t) (progresses d) = []"
    by (auto simp: list_ex_iff filter_empty_conv)
  then show ?thesis by (simp add: updateTopicMastery_def Let_def)
qed

theorem mastery_update_without_progress_witness:
  "\<not> list_ex (\<lambda>p. prUserId p = 1 \<and> prTopic p = ''graphs'') (progresses weakDb)
   \<and> find (\<lambda>m. tmUserId m = 1 \<and> tmTopic m = ''graphs'') (masteries weakDb) = None
   \<and> updateTopicMastery 1 ''graphs'' 50 weakDb = weakDb
   \<and> \<not> list_ex (\<lambda>p. prUserId p = 1 \<and> prTopic p = ''strings'') (progresses weakDb)
   \<and> find (\<lambda>m. tmUserId m = 1 \<and> tmTopic m = ''strings'') (masteries weakDb)
       = Some (masteryOf ''strings'' 30)
   \<and> updateTopicMastery 1 ''strings'' 50 weakDb = weakDb"
proof -
  have a: "\<not> list_ex (\<lambda>p. prUserId p = 1 \<and> prTopic p = ''graphs'') (progresses weakDb)"
    by (simp add: weakDb_def sampleProgress_def)
  have b: "\<not> list_ex (\<lambda>p. prUserId p = 1 \<and> prTopic p = ''strings'') (progresses weakDb)"
    by (simp add: weakDb_def sampleProgress_def)
  have c: "find (\<lambda>m. tmUserId m = 1 \<and> tmTopic m = ''graphs'') (masteries weakDb) = None"
    by (simp add: weakDb_def masteryOf_def newTopicMastery_def)
  have e: "find (\<lambda>m. tmUserId m = 1 \<and> tmTopic m = ''strings'') (masteries weakDb)
       = Some (masteryOf ''strings'' 30)"
    by (simp add: weakDb_def masteryOf_def newTopicMastery_def)
  from mastery_update_without_progress [OF a, of 50] mastery_update_without_progress [OF b, of 50]
    a b c e
  show ?thesis by blast
qed

text \<open>With a Progress record of the topic the update does write: the document is stamped.\<close>

lemma mastery_update_with_progress:
  "map lastUpdated (masteries (updateTopicMastery 1 ''arrays'' 50 weakDb)) = [50, 0, 0]"
  by (simp add: updateTopicMastery_def Let_def weakDb_def sampleProgress_def masteryOf_def
      newTopicMastery_def saveDoc_def tmPreSave_def deriveDifficulty_def)

section \<open>Properties of recording an attempt\<close>

text \<open>What a further attempt does to a Progress record, whatever its outcome.\<close>

lemma further_attempt_keeps_solvedDate:
  assumes "solvedDate p = Some sd"
  shows "solvedDate (progressPreSave now
            (fst (updateStatus passed now (pushAttempt c lang tt passed tcp tot now p)))) = Some sd"
  using assms by (simp add: progressPreSave_def updateStatus_def pushAttempt_def Let_def)

lemma failing_attempt_sets_attempted:
  "status (progressPreSave now
      (fst (updateStatus False now (pushAttempt c lang tt False tcp tot now p)))) = Attempted"
  by (simp add: progressPreSave_def updateStatus_def pushAttempt_def Let_def)

text \<open>
  Claim C2 does not hold of the code. The user has solved problem 1 (status solved,
  solvedDate 100) and submits again; the placeholder grading passes 1 of 2 test cases. The
  stored record keeps solvedDate 100, but its status is now attempted, while the user's
  totalSolved still counts the problem.
\<close>

theorem failed_retry_reverts_solved:
  "find (\<lambda>q. prUserId q = 1 \<and> prProblemId q = 1) (progresses weakDb) = Some sampleProgress
   \<and> status sampleProgress = Solved \<and> solvedDate sampleProgress = Some 100
   \<and> fst (submitSolution sampleUser 1 ''return 0'' ''javascript'' 5 0 200 weakDb)
       = Success \<lparr>spResult = ''failed'', spTestCasesPassed = 1, spTotalTestCases = 2,
                   spAttempt = \<lparr>attemptNumber = 2, attemptCode = ''return 0'',
                     language = ''javascript'', result = ''failed'', timeTaken = 5,
                     testCasesPassed = 1, totalTestCases = 2, timestamp = 200\<rparr>\<rparr>
           ''Solution failed some test cases''
   \<and> map status (progresses (snd (submitSolution sampleUser 1 ''return 0'' ''javascript'' 5 0 200 weakDb)))
       = [Attempted]
   \<and> map solvedDate (progresses (snd (submitSolution sampleUser 1 ''return 0'' ''javascript'' 5 0 200 weakDb)))
       = [Some 100]
   \<and> map profileTotalSolved (users (snd (submitSolution sampleUser 1 ''return 0'' ''javascript'' 5 0 200 weakDb)))
       = [1]"
  by (simp add: submitSolution_def Let_def weakDb_def sampleUser_def sampleProgress_def sample_defs
      pushAttempt_def updateStatus_def progressPreSave_def saveDoc_def
      progresses_updateTopicMastery users_updateTopicMastery)

end
